theory Spec2Isabelle
  imports Complex_Main "HOL-Library.Multiset"
begin

section \<open>Numbers of the script\<close>

text \<open>
  \<^verbatim>\<open>plot_results.py\<close> computes with Python integers (unbounded, modelled as \<open>int\<close>) and with
  binary64 floating-point numbers (Python \<open>float\<close> and numpy \<open>float64\<close>). A floating-point
  value is modelled as an extended real: a finite real, one of the two infinities, or NaN.
  The arithmetic below follows IEEE 754 as numpy applies it to scalars (division by zero and
  the logarithm of zero give an infinity or NaN and a warning, never an exception), but it
  is exact: rounding, overflow of finite results and the sign of zero are not modelled (a
  zero is the positive zero). Conversions of Python integers to \<open>float64\<close> are exact too,
  and the integers of a file are taken to be in the range that numpy converts.
\<close>

datatype npfloat = Fin real | PInf | NInf | NaN

fun fadd :: "npfloat \<Rightarrow> npfloat \<Rightarrow> npfloat" where
  "fadd (Fin a) (Fin b) = Fin (a + b)"
| "fadd NaN _ = NaN"
| "fadd _ NaN = NaN"
| "fadd PInf NInf = NaN"
| "fadd NInf PInf = NaN"
| "fadd PInf _ = PInf"
| "fadd _ PInf = PInf"
| "fadd NInf _ = NInf"
| "fadd _ NInf = NInf"

fun fneg :: "npfloat \<Rightarrow> npfloat" where
  "fneg (Fin a) = Fin (- a)"
| "fneg PInf = NInf"
| "fneg NInf = PInf"
| "fneg NaN = NaN"

definition fsub :: "npfloat \<Rightarrow> npfloat \<Rightarrow> npfloat" where
  "fsub x y = fadd x (fneg y)"

text \<open>The infinity with the sign of a real, NaN for zero.\<close>

definition signed_inf :: "real \<Rightarrow> npfloat" where
  "signed_inf a = (if 0 < a then PInf else if a < 0 then NInf else NaN)"

fun fmul :: "npfloat \<Rightarrow> npfloat \<Rightarrow> npfloat" where
  "fmul (Fin a) (Fin b) = Fin (a * b)"
| "fmul NaN _ = NaN"
| "fmul _ NaN = NaN"
| "fmul (Fin a) PInf = signed_inf a"
| "fmul (Fin a) NInf = signed_inf (- a)"
| "fmul PInf (Fin b) = signed_inf b"
| "fmul NInf (Fin b) = signed_inf (- b)"
| "fmul PInf PInf = PInf"
| "fmul NInf NInf = PInf"
| "fmul PInf NInf = NInf"
| "fmul NInf PInf = NInf"

text \<open>
  Division of two \<open>float64\<close> scalars: a zero divisor gives an infinity with the sign of the
  dividend, or NaN for \<open>0 / 0\<close>; nothing is raised.
\<close>

fun fdiv :: "npfloat \<Rightarrow> npfloat \<Rightarrow> npfloat" where
  "fdiv (Fin a) (Fin b) = (if b = 0 then signed_inf a else Fin (a / b))"
| "fdiv NaN _ = NaN"
| "fdiv _ NaN = NaN"
| "fdiv (Fin a) PInf = Fin 0"
| "fdiv (Fin a) NInf = Fin 0"
| "fdiv PInf (Fin b) = (if 0 \<le> b then PInf else NInf)"
| "fdiv NInf (Fin b) = (if 0 \<le> b then NInf else PInf)"
| "fdiv PInf PInf = NaN"
| "fdiv PInf NInf = NaN"
| "fdiv NInf PInf = NaN"
| "fdiv NInf NInf = NaN"

fun fsqrt :: "npfloat \<Rightarrow> npfloat" where
  "fsqrt (Fin a) = (if a < 0 then NaN else Fin (sqrt a))"
| "fsqrt PInf = PInf"
| "fsqrt NInf = NaN"
| "fsqrt NaN = NaN"

text \<open>\<^verbatim>\<open>np.log2(n)\<close> of a Python integer: \<open>-inf\<close> at zero, NaN below.\<close>

definition log2 :: "int \<Rightarrow> npfloat" where
  "log2 n = (if 0 < n then Fin (log 2 (real_of_int n)) else if n = 0 then NInf else NaN)"

definition of_py_int :: "int \<Rightarrow> npfloat" where
  "of_py_int n = Fin (real_of_int n)"

text \<open>
  \<^verbatim>\<open>np.mean\<close> is the sum divided by the number of elements (NaN for no element), and
  \<^verbatim>\<open>np.std\<close>, with its default \<^verbatim>\<open>ddof=0\<close>, the square root of the mean of the squared
  deviations from the mean.
\<close>

definition np_sum :: "npfloat list \<Rightarrow> npfloat" where
  "np_sum xs = fold (\<lambda>x acc. fadd acc x) xs (Fin 0)"

definition np_mean :: "npfloat list \<Rightarrow> npfloat" where
  "np_mean xs = fdiv (np_sum xs) (Fin (real (length xs)))"

definition np_std :: "npfloat list \<Rightarrow> npfloat" where
  "np_std xs =
     (let arrmean = np_mean xs;
          x = map (\<lambda>a. fsub a arrmean) xs
      in fsqrt (np_mean (map (\<lambda>d. fmul d d) x)))"

section \<open>Errors\<close>

text \<open>
  The script catches nothing: an exception ends it. The exceptions it can raise are those
  of the builtins it calls; \<open>KeyError\<close> carries the missing key and \<open>ValueError\<close> the text
  that could not be converted. None of them carries the number of a row.
\<close>

datatype py_error =
    KeyError string
  | TypeError
  | ValueError string
  | IndexError
  | ZeroDivisionError
  | OverflowError

section \<open>Reading the CSV rows\<close>

text \<open>
  \<^verbatim>\<open>int(s)\<close> and \<^verbatim>\<open>float(s)\<close> on ASCII text: surrounding whitespace is dropped, a sign is
  optional, digits may be grouped by single underscores; \<^verbatim>\<open>float\<close> also reads a fraction,
  an exponent, and \<^verbatim>\<open>inf\<close>, \<^verbatim>\<open>infinity\<close> and \<^verbatim>\<open>nan\<close> in any case.
\<close>

definition is_space :: "char \<Rightarrow> bool" where
  "is_space c = (let n = (of_char c :: nat) in (9 \<le> n \<and> n \<le> 13) \<or> (28 \<le> n \<and> n \<le> 32))"

definition strip :: "string \<Rightarrow> string" where
  "strip s = rev (dropWhile is_space (rev (dropWhile is_space s)))"

definition is_digit :: "char \<Rightarrow> bool" where
  "is_digit c = (let n = (of_char c :: nat) in 48 \<le> n \<and> n \<le> 57)"

definition digit_val :: "char \<Rightarrow> nat" where
  "digit_val c = of_char c - 48"

definition to_lower :: "char \<Rightarrow> char" where
  "to_lower c = (let n = (of_char c :: nat) in if 65 \<le> n \<and> n \<le> 90 then char_of (n + 32) else c)"

text \<open>
  The digits that follow a first digit: the value so far, the number of digits read, and
  the text left. An underscore is read only between two digits.
\<close>

fun more_digits :: "nat \<Rightarrow> nat \<Rightarrow> string \<Rightarrow> nat \<times> nat \<times> string" where
  "more_digits v k [] = (v, k, [])"
| "more_digits v k [c] = (if is_digit c then (10 * v + digit_val c, Suc k, []) else (v, k, [c]))"
| "more_digits v k (c # d # ds) =
     (if is_digit c then more_digits (10 * v + digit_val c) (Suc k) (d # ds)
      else if c = CHR ''_'' \<and> is_digit d then more_digits (10 * v + digit_val d) (Suc k) ds
      else (v, k, c # d # ds))"

definition digitpart :: "string \<Rightarrow> (nat \<times> nat \<times> string) option" where
  "digitpart s =
     (case s of
        [] \<Rightarrow> None
      | c # cs \<Rightarrow> if is_digit c then Some (more_digits (digit_val c) 1 cs) else None)"

definition take_sign :: "string \<Rightarrow> bool \<times> string" where
  "take_sign s =
     (case s of
        [] \<Rightarrow> (False, [])
      | c # cs \<Rightarrow> if c = CHR ''-'' then (True, cs) else if c = CHR ''+'' then (False, cs)
                 else (False, s))"

definition py_int :: "string \<Rightarrow> py_error + int" where
  "py_int s =
     (let (neg, u) = take_sign (strip s) in
      case digitpart u of
        Some (v, k, []) \<Rightarrow> Inr (if neg then - int v else int v)
      | _ \<Rightarrow> Inl (ValueError s))"

text \<open>The mantissa of a decimal literal, and the text left after it.\<close>

definition mantissa :: "string \<Rightarrow> (real \<times> string) option" where
  "mantissa u =
     (case u of
        [] \<Rightarrow> None
      | c # cs \<Rightarrow>
          if c = CHR ''.'' then
            (case digitpart cs of
               None \<Rightarrow> None
             | Some (f, k, rest) \<Rightarrow> Some (real f / 10 ^ k, rest))
          else
            (case digitpart u of
               None \<Rightarrow> None
             | Some (v, _, rest) \<Rightarrow>
                 (case rest of
                    [] \<Rightarrow> Some (real v, [])
                  | p # ps \<Rightarrow>
                      if p = CHR ''.'' then
                        (case digitpart ps of
                           None \<Rightarrow> Some (real v, ps)
                         | Some (f, k, rest') \<Rightarrow> Some (real v + real f / 10 ^ k, rest'))
                      else Some (real v, rest))))"

definition float_number :: "string \<Rightarrow> real option" where
  "float_number u =
     (case mantissa u of
        None \<Rightarrow> None
      | Some (m, rest) \<Rightarrow>
          (case rest of
             [] \<Rightarrow> Some m
           | e # es \<Rightarrow>
               if e = CHR ''e'' \<or> e = CHR ''E'' then
                 (let (neg, ds) = take_sign es in
                  case digitpart ds of
                    Some (x, k, []) \<Rightarrow> Some (if neg then m / 10 ^ x else m * 10 ^ x)
                  | _ \<Rightarrow> None)
               else None))"

definition py_float :: "string \<Rightarrow> py_error + npfloat" where
  "py_float s =
     (let (neg, u) = take_sign (strip s); l = map to_lower u in
      if l = ''inf'' \<or> l = ''infinity'' then Inr (if neg then NInf else PInf)
      else if l = ''nan'' then Inr NaN
      else case float_number u of
             Some r \<Rightarrow> Inr (Fin (if neg then - r else r))
           | None \<Rightarrow> Inl (ValueError s))"

text \<open>
  A row of \<^verbatim>\<open>csv.DictReader\<close>: the header's field names with the row's values, \<open>None\<close> for
  a field that a short row leaves out. \<^verbatim>\<open>row[key]\<close> raises \<open>KeyError\<close> when the header has
  no such field; \<^verbatim>\<open>int(None)\<close> and \<^verbatim>\<open>float(None)\<close> raise \<open>TypeError\<close>.
\<close>

type_synonym row = "(string \<times> string option) list"

definition int_field :: "row \<Rightarrow> string \<Rightarrow> py_error + int" where
  "int_field r key =
     (case map_of r key of
        None \<Rightarrow> Inl (KeyError key)
      | Some None \<Rightarrow> Inl TypeError
      | Some (Some s) \<Rightarrow> py_int s)"

definition float_field :: "row \<Rightarrow> string \<Rightarrow> py_error + npfloat" where
  "float_field r key =
     (case map_of r key of
        None \<Rightarrow> Inl (KeyError key)
      | Some None \<Rightarrow> Inl TypeError
      | Some (Some s) \<Rightarrow> py_float s)"

text \<open>The six lists the script fills, one entry per row in each.\<close>

record columns =
  sizes :: "int list"
  times :: "npfloat list"
  comparisons :: "int list"
  swaps :: "int list"
  heapify_ops :: "int list"
  memory :: "int list"

definition no_columns :: columns where
  "no_columns = \<lparr>sizes = [], times = [], comparisons = [], swaps = [], heapify_ops = [],
     memory = []\<rparr>"

text \<open>
  One turn of the reading loop: the fields are converted and appended in the order of the
  source, and the first exception ends the script.
\<close>

definition load_row :: "columns \<Rightarrow> row \<Rightarrow> py_error + columns" where
  "load_row c r =
     (case int_field r ''InputSize'' of Inl e \<Rightarrow> Inl e | Inr s \<Rightarrow>
     (case float_field r ''TimeMillis'' of Inl e \<Rightarrow> Inl e | Inr t \<Rightarrow>
     (case int_field r ''Comparisons'' of Inl e \<Rightarrow> Inl e | Inr cm \<Rightarrow>
     (case int_field r ''Swaps'' of Inl e \<Rightarrow> Inl e | Inr sw \<Rightarrow>
     (case int_field r ''HeapifyOps'' of Inl e \<Rightarrow> Inl e | Inr h \<Rightarrow>
     (case int_field r ''MemoryKB'' of Inl e \<Rightarrow> Inl e | Inr m \<Rightarrow>
        Inr \<lparr>sizes = sizes c @ [s], times = times c @ [t],
             comparisons = comparisons c @ [cm], swaps = swaps c @ [sw],
             heapify_ops = heapify_ops c @ [h], memory = memory c @ [m]\<rparr>))))))"

fun load_from :: "columns \<Rightarrow> row list \<Rightarrow> py_error + columns" where
  "load_from c [] = Inr c"
| "load_from c (r # rs) = (case load_row c r of Inl e \<Rightarrow> Inl e | Inr c' \<Rightarrow> load_from c' rs)"

definition load :: "row list \<Rightarrow> py_error + columns" where
  "load rows = load_from no_columns rows"

section \<open>Averages for each unique size\<close>

text \<open>
  The lists the script builds for the unique sizes; entry \<open>k\<close> of each belongs to the
  \<open>k\<close>-th unique size.
\<close>

record aggregates =
  unique_sizes :: "int list"
  avg_times :: "npfloat list"
  avg_comparisons :: "npfloat list"
  avg_swaps :: "npfloat list"
  avg_heapify :: "npfloat list"
  avg_memory :: "npfloat list"
  std_times :: "npfloat list"

text \<open>\<^verbatim>\<open>[i for i, s in enumerate(sizes) if s == size]\<close>\<close>

definition indices :: "int list \<Rightarrow> int \<Rightarrow> nat list" where
  "indices ss sz = map fst (filter (\<lambda>(i, s). s = sz) (enumerate 0 ss))"

text \<open>
  \<^verbatim>\<open>unique_sizes = sorted(set(sizes))\<close>, then one turn of the loop for each unique size,
  which appends one entry to each list. The lists are indexed at the positions found in
  \<open>sizes\<close>; the reading loop leaves all six lists with the same length, so these reads are
  in range. The integer columns become \<open>float64\<close> in \<^verbatim>\<open>np.mean\<close>.
\<close>

definition group_and_aggregate :: "columns \<Rightarrow> aggregates" where
  "group_and_aggregate c =
     (let us = sorted_list_of_set (set (sizes c));
          idx = indices (sizes c)
      in \<lparr>unique_sizes = us,
          avg_times = map (\<lambda>sz. np_mean (map (\<lambda>i. times c ! i) (idx sz))) us,
          avg_comparisons =
            map (\<lambda>sz. np_mean (map (\<lambda>i. of_py_int (comparisons c ! i)) (idx sz))) us,
          avg_swaps = map (\<lambda>sz. np_mean (map (\<lambda>i. of_py_int (swaps c ! i)) (idx sz))) us,
          avg_heapify =
            map (\<lambda>sz. np_mean (map (\<lambda>i. of_py_int (heapify_ops c ! i)) (idx sz))) us,
          avg_memory = map (\<lambda>sz. np_mean (map (\<lambda>i. of_py_int (memory c ! i)) (idx sz))) us,
          std_times = map (\<lambda>sz. np_std (map (\<lambda>i. times c ! i) (idx sz))) us\<rparr>)"

section \<open>The derived series\<close>


definition and_then :: "'e + 'a \<Rightarrow> ('a \<Rightarrow> 'e + 'b) \<Rightarrow> 'e + 'b" where
  "and_then r f = (case r of Inl e \<Rightarrow> Inl e | Inr x \<Rightarrow> f x)"



text \<open>\<^verbatim>\<open>theoretical_swaps = [n - 1 for n in unique_sizes]\<close>\<close>

definition theoretical_swaps :: "int list \<Rightarrow> int list" where
  "theoretical_swaps us = map (\<lambda>n. n - 1) us"






definition theoretical_per_elem :: "int list \<Rightarrow> npfloat list" where
  "theoretical_per_elem us = map (\<lambda>n. fmul (log2 n) (Fin (144 / 100))) us"

section \<open>The printed statistics\<close>




text \<open>
  The complexity verification: mean, standard deviation and coefficient of variation of
  \<open>normalized_time\<close>.
\<close>

definition coefficient_of_variation :: "npfloat list \<Rightarrow> npfloat" where
  "coefficient_of_variation nt = fmul (fdiv (np_std nt) (np_mean nt)) (Fin 100)"



section \<open>The script\<close>



section \<open>Notions used in the properties\<close>



text \<open>
  The six values of one row as one trial, and the step that appends a trial to the lists:
  the reading loop, seen row by row (used in the proofs only).
\<close>

type_synonym trial = "int \<times> npfloat \<times> int \<times> int \<times> int \<times> int"

definition parse_row :: "row \<Rightarrow> py_error + trial" where
  "parse_row r =
     and_then (int_field r ''InputSize'') (\<lambda>s.
     and_then (float_field r ''TimeMillis'') (\<lambda>t.
     and_then (int_field r ''Comparisons'') (\<lambda>cm.
     and_then (int_field r ''Swaps'') (\<lambda>sw.
     and_then (int_field r ''HeapifyOps'') (\<lambda>h.
     and_then (int_field r ''MemoryKB'') (\<lambda>m. Inr (s, t, cm, sw, h, m)))))))"

definition append_trial :: "columns \<Rightarrow> trial \<Rightarrow> columns" where
  "append_trial c tr =
     (case tr of (s, t, cm, sw, h, m) \<Rightarrow>
        \<lparr>sizes = sizes c @ [s], times = times c @ [t],
         comparisons = comparisons c @ [cm], swaps = swaps c @ [sw],
         heapify_ops = heapify_ops c @ [h], memory = memory c @ [m]\<rparr>)"

text \<open>The lists of a file with the trials \<open>ts\<close> (used in the proofs only).\<close>

definition columns_of :: "trial list \<Rightarrow> columns" where
  "columns_of ts =
     \<lparr>sizes = map (\<lambda>(s, t, cm, sw, h, m). s) ts,
      times = map (\<lambda>(s, t, cm, sw, h, m). t) ts,
      comparisons = map (\<lambda>(s, t, cm, sw, h, m). cm) ts,
      swaps = map (\<lambda>(s, t, cm, sw, h, m). sw) ts,
      heapify_ops = map (\<lambda>(s, t, cm, sw, h, m). h) ts,
      memory = map (\<lambda>(s, t, cm, sw, h, m). m) ts\<rparr>"

text \<open>All six lists have one entry for each row.\<close>

definition wf_columns :: "columns \<Rightarrow> bool" where
  "wf_columns c =
     (length (times c) = length (sizes c) \<and> length (comparisons c) = length (sizes c) \<and>
      length (swaps c) = length (sizes c) \<and> length (heapify_ops c) = length (sizes c) \<and>
      length (memory c) = length (sizes c))"

text \<open>
  The values that a column holds for the trials of one size, in the order of the file: each
  trial of that size gives one value, and no other trial gives any.
\<close>

definition group_values :: "int list \<Rightarrow> 'a list \<Rightarrow> int \<Rightarrow> 'a list" where
  "group_values ss col sz = map snd (filter (\<lambda>(s, v). s = sz) (zip ss col))"




section \<open>Example files\<close>

text \<open>A row with all six fields of the header.\<close>

definition csv_row ::
  "string \<Rightarrow> string \<Rightarrow> string \<Rightarrow> string \<Rightarrow> string \<Rightarrow> string \<Rightarrow> row" where
  "csv_row s t c sw h m =
     [(''InputSize'', Some s), (''TimeMillis'', Some t), (''Comparisons'', Some c),
      (''Swaps'', Some sw), (''HeapifyOps'', Some h), (''MemoryKB'', Some m)]"







text \<open>Two trials of size 200 around one of size 100.\<close>

definition mixed_rows :: "row list" where
  "mixed_rows =
     [csv_row ''200'' ''4.0'' ''2100'' ''199'' ''300'' ''12'',
      csv_row ''100'' ''1.0'' ''900'' ''99'' ''150'' ''10'',
      csv_row ''200'' ''2.0'' ''2300'' ''199'' ''310'' ''12'']"

definition mixed_columns :: columns where
  "mixed_columns =
     \<lparr>sizes = [200, 100, 200], times = [Fin 4, Fin 1, Fin 2],
      comparisons = [2100, 900, 2300], swaps = [199, 99, 199],
      heapify_ops = [300, 150, 310], memory = [12, 10, 12]\<rparr>"


section \<open>Properties\<close>

subsection \<open>The example files, read and averaged\<close>








lemma list2_eq: "length xs = 2 \<Longrightarrow> xs = [xs ! 0, xs ! 1]"
  by (cases xs; cases "tl xs") auto

subsection \<open>Arithmetic of the floating-point model\<close>





subsection \<open>The theoretical curves\<close>

text \<open>
  Claim C3, as amended: \<open>theoretical_swaps\<close> has one entry for each unique size \<open>n\<close>, and the
  entry is \<open>n - 1\<close> for every integer \<open>n\<close>; the code has no case for \<open>n = 0\<close>, where the
  entry is \<open>-1\<close>.
\<close>

theorem theoretical_swaps_nth:
  "length (theoretical_swaps us) = length us \<and>
   (\<forall>i<length us. theoretical_swaps us ! i = us ! i - 1)"
  by (simp add: theoretical_swaps_def)

theorem theoretical_swaps_nth_witness:
  "theoretical_swaps [0, 1, 100] ! 2 = 99 \<and> theoretical_swaps [0, 1, 100] ! 0 = - 1"
  using theoretical_swaps_nth [of "[0, 1, 100]"] by simp

text \<open>Claim C3 as stated fails at \<open>n = 0\<close>: the entry is \<open>-1\<close>, not 0.\<close>

theorem theoretical_swaps_zero_counterexample:
  "theoretical_swaps [0] = [- 1] \<and> theoretical_swaps [0] \<noteq> [0]"
  by (simp add: theoretical_swaps_def)




subsection \<open>A file without rows\<close>


subsection \<open>The normalized time\<close>




subsection \<open>The growth rates\<close>





subsection \<open>Rows that cannot be read\<close>



lemma load_row_parse:
  "load_row c r = and_then (parse_row r) (\<lambda>tr. Inr (append_trial c tr))"
  by (simp add: load_row_def parse_row_def and_then_def append_trial_def split: sum.splits)










subsection \<open>The lists after reading\<close>

lemma append_trial_columns_of: "append_trial (columns_of ts) tr = columns_of (ts @ [tr])"
  by (cases tr) (simp add: append_trial_def columns_of_def)

lemma load_from_columns_of:
  "load_from (columns_of ts) rows = Inr c \<longleftrightarrow>
     (\<exists>us. map parse_row rows = map Inr us \<and> c = columns_of (ts @ us))"
proof (induction rows arbitrary: ts)
  case Nil
  then show ?case by auto
next
  case (Cons r rows)
  show ?case
  proof (cases "parse_row r")
    case (Inl e)
    then show ?thesis by (auto simp: load_row_parse and_then_def)
  next
    case (Inr tr)
    have "(\<exists>us. map parse_row rows = map Inr us \<and> c = columns_of ((ts @ [tr]) @ us)) \<longleftrightarrow>
        (\<exists>us. map parse_row (r # rows) = map Inr us \<and> c = columns_of (ts @ us))"
      (is "?l \<longleftrightarrow> ?r")
    proof
      assume ?l
      then obtain us where "map parse_row rows = map Inr us" "c = columns_of ((ts @ [tr]) @ us)"
        by blast
      then have "map parse_row (r # rows) = map Inr (tr # us) \<and> c = columns_of (ts @ tr # us)"
        using Inr by simp
      then show ?r by blast
    next
      assume ?r
      then obtain us where us: "map parse_row (r # rows) = map Inr us" "c = columns_of (ts @ us)"
        by blast
      then obtain us' where "us = tr # us'" using Inr by (cases us) auto
      with us show ?l by auto
    qed
    with Inr Cons.IH [of "ts @ [tr]"] show ?thesis
      by (simp add: load_row_parse and_then_def append_trial_columns_of)
  qed
qed

lemma load_columns_of:
  "load rows = Inr c \<longleftrightarrow> (\<exists>ts. map parse_row rows = map Inr ts \<and> c = columns_of ts)"
proof -
  have "no_columns = columns_of []" by (simp add: no_columns_def columns_of_def)
  then show ?thesis using load_from_columns_of [of "[]" rows c] by (simp add: load_def)
qed

lemma wf_columns_of: "wf_columns (columns_of ts)"
  by (simp add: wf_columns_def columns_of_def)

lemma load_wf: "load rows = Inr c \<Longrightarrow> wf_columns c \<and> length (sizes c) = length rows"
proof -
  assume "load rows = Inr c"
  then obtain ts where ts: "map parse_row rows = map Inr ts" "c = columns_of ts"
    using load_columns_of by blast
  from ts(1) have "length rows = length ts" by (metis length_map)
  with ts(2) show ?thesis by (simp add: wf_columns_of) (simp add: columns_of_def)
qed

lemma indices_eq: "indices ss sz = filter (\<lambda>i. ss ! i = sz) [0..<length ss]"
proof -
  have "zip [0..<length ss] ss = map (\<lambda>i. (i, ss ! i)) [0..<length ss]"
    by (rule nth_equalityI) simp_all
  then show ?thesis
    by (simp add: indices_def enumerate_eq_zip filter_map comp_def)
qed

lemma group_values_eq:
  assumes "length col = length ss"
  shows "map (\<lambda>i. f (col ! i)) (indices ss sz) = map f (group_values ss col sz)"
proof -
  have "zip ss col = map (\<lambda>i. (ss ! i, col ! i)) [0..<length ss]"
    using assms by (intro nth_equalityI) simp_all
  then show ?thesis
    by (simp add: indices_eq group_values_def filter_map comp_def)
qed

lemma group_values_nonempty:
  assumes "length col = length ss" and "sz \<in> set ss"
  shows "group_values ss col sz \<noteq> []"
proof -
  from assms(2) obtain i where i: "i < length ss" "ss ! i = sz"
    by (auto simp: in_set_conv_nth)
  then have "(ss ! i, col ! i) \<in> set (zip ss col)"
    using assms(1) by (auto simp: set_zip)
  with i(2) have "(sz, col ! i) \<in> set (filter (\<lambda>(s, v). s = sz) (zip ss col))" by simp
  then show ?thesis unfolding group_values_def by (metis empty_iff empty_set map_is_Nil_conv)
qed

lemma concat_filter_mset:
  assumes "distinct us"
  shows "mset (concat (map (\<lambda>u. filter (\<lambda>x. f x = u) xs) us)) = mset (filter (\<lambda>x. f x \<in> set us) xs)"
  using assms
proof (induction us)
  case Nil
  then show ?case by simp
next
  case (Cons u us)
  have "filter_mset (\<lambda>x. f x = u) (mset xs) + filter_mset (\<lambda>x. f x \<in> set us) (mset xs) =
      filter_mset (\<lambda>x. f x = u \<or> f x \<in> set us) (mset xs)"
    using Cons.prems by (induction xs) auto
  with Cons show ?case by simp
qed

lemma indices_partition:
  "mset (concat (map (indices ss) (sorted_list_of_set (set ss)))) = mset [0..<length ss]"
proof -
  let ?us = "sorted_list_of_set (set ss)"
  have "mset (concat (map (\<lambda>u. filter (\<lambda>i. ss ! i = u) [0..<length ss]) ?us)) =
      mset (filter (\<lambda>i. ss ! i \<in> set ?us) [0..<length ss])"
    by (rule concat_filter_mset) simp
  also have "filter (\<lambda>i. ss ! i \<in> set ?us) [0..<length ss] = [0..<length ss]"
    by (simp add: filter_id_conv)
  finally show ?thesis
    by (simp add: indices_eq [abs_def])
qed


subsection \<open>One record for each size\<close>

lemma group_values_eq_id:
  assumes "length col = length ss"
  shows "map (\<lambda>i. col ! i) (indices ss sz) = group_values ss col sz"
  using group_values_eq [OF assms, of "\<lambda>x. x" sz] by simp

lemma group_and_aggregate_eq:
  assumes "wf_columns c"
  shows "group_and_aggregate c =
     (let us = sorted_list_of_set (set (sizes c)); ss = sizes c in
      \<lparr>unique_sizes = us,
       avg_times = map (\<lambda>sz. np_mean (group_values ss (times c) sz)) us,
       avg_comparisons = map (\<lambda>sz. np_mean (map of_py_int (group_values ss (comparisons c) sz))) us,
       avg_swaps = map (\<lambda>sz. np_mean (map of_py_int (group_values ss (swaps c) sz))) us,
       avg_heapify = map (\<lambda>sz. np_mean (map of_py_int (group_values ss (heapify_ops c) sz))) us,
       avg_memory = map (\<lambda>sz. np_mean (map of_py_int (group_values ss (memory c) sz))) us,
       std_times = map (\<lambda>sz. np_std (group_values ss (times c) sz)) us\<rparr>)"
  using assms
  by (simp add: group_and_aggregate_def Let_def wf_columns_def group_values_eq group_values_eq_id)

lemma load_mixed_rows: "load mixed_rows = Inr mixed_columns"
  unfolding mixed_rows_def mixed_columns_def csv_row_def by code_simp

lemmas float_list_defs = np_mean_def np_std_def np_sum_def of_py_int_def fsub_def Let_def

text \<open>
  Claim C1: for a file with at least one row that is read without error, the unique sizes
  are not empty, strictly ascending (so each size occurs once) and exactly the sizes of the
  trials; every list of averages has one entry for each unique size; the entry of a size is
  the mean (or the standard deviation) of the values of exactly the trials of that size;
  and the positions collected for the unique sizes are, taken together, every position of
  the file exactly once.
\<close>

theorem group_and_aggregate_groups:
  assumes "load rows = Inr c" and "rows \<noteq> []"
  shows "let a = group_and_aggregate c; us = unique_sizes a; ss = sizes c in
     length ss = length rows \<and>
     us \<noteq> [] \<and> sorted_wrt (<) us \<and> distinct us \<and> set us = set ss \<and>
     length (avg_times a) = length us \<and> length (avg_comparisons a) = length us \<and>
     length (avg_swaps a) = length us \<and> length (avg_heapify a) = length us \<and>
     length (avg_memory a) = length us \<and> length (std_times a) = length us \<and>
     (\<forall>k<length us.
        group_values ss (times c) (us ! k) \<noteq> [] \<and>
        avg_times a ! k = np_mean (group_values ss (times c) (us ! k)) \<and>
        avg_comparisons a ! k = np_mean (map of_py_int (group_values ss (comparisons c) (us ! k))) \<and>
        avg_swaps a ! k = np_mean (map of_py_int (group_values ss (swaps c) (us ! k))) \<and>
        avg_heapify a ! k = np_mean (map of_py_int (group_values ss (heapify_ops c) (us ! k))) \<and>
        avg_memory a ! k = np_mean (map of_py_int (group_values ss (memory c) (us ! k))) \<and>
        std_times a ! k = np_std (group_values ss (times c) (us ! k))) \<and>
     mset (concat (map (indices ss) us)) = mset [0..<length ss]"
proof -
  let ?ss = "sizes c"
  let ?us = "sorted_list_of_set (set ?ss)"
  from load_wf [OF assms(1)] have wf: "wf_columns c" and len: "length ?ss = length rows"
    by simp_all
  have us: "unique_sizes (group_and_aggregate c) = ?us"
    by (simp add: group_and_aggregate_def Let_def)
  have ne: "?us \<noteq> []"
  proof
    assume "?us = []"
    then have "set ?us = {}" by simp
    then have "?ss = []" by simp
    with len assms(2) show False by simp
  qed
  have grp: "group_values ?ss (times c) (?us ! k) \<noteq> []" if "k < length ?us" for k
  proof -
    have "?us ! k \<in> set ?us" using that by (rule nth_mem)
    then have "?us ! k \<in> set ?ss" by simp
    with wf show ?thesis by (intro group_values_nonempty) (simp_all add: wf_columns_def)
  qed
  show ?thesis
    unfolding group_and_aggregate_eq [OF wf]
    using len ne grp indices_partition [of ?ss]
    by (simp add: Let_def strict_sorted_list_of_set)
qed


theorem group_and_aggregate_groups_witness:
  "load mixed_rows = Inr mixed_columns \<and> mixed_rows \<noteq> [] \<and>
   unique_sizes (group_and_aggregate mixed_columns) = [100, 200] \<and>
   avg_times (group_and_aggregate mixed_columns) = [Fin 1, Fin 3] \<and>
   avg_comparisons (group_and_aggregate mixed_columns) ! 1 = Fin 2200 \<and>
   std_times (group_and_aggregate mixed_columns) ! 1 = Fin 1"
proof -
  let ?a = "group_and_aggregate mixed_columns"
  let ?ss = "sizes mixed_columns"
  have ne: "mixed_rows \<noteq> []" by (simp add: mixed_rows_def)
  note t = group_and_aggregate_groups [OF load_mixed_rows ne, unfolded Let_def]
  have "sorted_list_of_set (set [200, 100, 200 :: int]) = [100, 200]"
    by code_simp
  then have us: "unique_sizes ?a = [100, 200]"
    by (simp add: mixed_columns_def group_and_aggregate_def Let_def)
  from t have len: "length (avg_times ?a) = length (unique_sizes ?a)" by blast
  have p: "avg_times ?a ! k = np_mean (group_values ?ss (times mixed_columns) (unique_sizes ?a ! k)) \<and>
      avg_comparisons ?a ! k =
        np_mean (map of_py_int (group_values ?ss (comparisons mixed_columns) (unique_sizes ?a ! k))) \<and>
      std_times ?a ! k = np_std (group_values ?ss (times mixed_columns) (unique_sizes ?a ! k))"
    if "k < length (unique_sizes ?a)" for k
    using t that by blast
  have g1: "group_values ?ss (times mixed_columns) 200 = [Fin 4, Fin 2]"
    and g0: "group_values ?ss (times mixed_columns) 100 = [Fin 1]"
    and c1: "group_values ?ss (comparisons mixed_columns) 200 = [2100, 2300]"
    by (simp_all add: mixed_columns_def group_values_def)
  have t0: "avg_times ?a ! 0 = Fin 1"
    using p [of 0] by (simp add: us g0 float_list_defs)
  have t1: "avg_times ?a ! 1 = Fin 3" and a1: "avg_comparisons ?a ! 1 = Fin 2200"
    and s1: "std_times ?a ! 1 = Fin 1"
    using p [of 1] by (simp_all add: us g1 c1 float_list_defs)
  have "length (avg_times ?a) = 2" using len by (simp add: us)
  from list2_eq [OF this] have "avg_times ?a = [Fin 1, Fin 3]" using t0 t1 by simp
  with load_mixed_rows ne us a1 s1 show ?thesis by simp
qed

subsection \<open>The standard deviation of a group\<close>










subsection \<open>The order of the rows\<close>












subsection \<open>The coefficient of variation\<close>

lemma fscale_add:
  "0 < k \<Longrightarrow> fmul (fadd x y) (Fin k) = fadd (fmul x (Fin k)) (fmul y (Fin k))"
  by (cases x; cases y) (simp_all add: signed_inf_def algebra_simps)

lemma fscale_sub:
  "0 < k \<Longrightarrow> fmul (fsub x y) (Fin k) = fsub (fmul x (Fin k)) (fmul y (Fin k))"
  by (cases x; cases y) (simp_all add: fsub_def signed_inf_def algebra_simps)

lemma fscale_square:
  "0 < k \<Longrightarrow> fmul (fmul x (Fin k)) (fmul x (Fin k)) = fmul (fmul x x) (Fin (k * k))"
  by (cases x) (simp_all add: signed_inf_def)

lemma fscale_div:
  "0 < k \<Longrightarrow> fdiv (fmul x (Fin k)) y = fmul (fdiv x y) (Fin k)"
  by (cases x; cases y)
    (auto simp: signed_inf_def zero_less_mult_iff mult_less_0_iff)

lemma fdiv_scale_both:
  "0 < k \<Longrightarrow> fdiv (fmul x (Fin k)) (fmul y (Fin k)) = fdiv x y"
  by (cases x; cases y)
    (auto simp: signed_inf_def zero_less_mult_iff mult_less_0_iff zero_le_mult_iff)

lemma fsqrt_scale:
  "0 < k \<Longrightarrow> fsqrt (fmul x (Fin (k * k))) = fmul (fsqrt x) (Fin k)"
  by (cases x)
    (auto simp: signed_inf_def real_sqrt_mult mult_less_0_iff zero_less_mult_iff)

lemma fold_fadd_scale:
  assumes "0 < k"
  shows "fold (\<lambda>x acc. fadd acc x) (map (\<lambda>t. fmul t (Fin k)) xs) (fmul a (Fin k)) =
     fmul (fold (\<lambda>x acc. fadd acc x) xs a) (Fin k)"
  by (induction xs arbitrary: a) (simp_all add: fscale_add [OF assms, symmetric])

lemma np_sum_scale:
  assumes "0 < k"
  shows "np_sum (map (\<lambda>t. fmul t (Fin k)) xs) = fmul (np_sum xs) (Fin k)"
  using fold_fadd_scale [OF assms, of xs "Fin 0"] by (simp add: np_sum_def)

lemma np_mean_scale:
  assumes "0 < k"
  shows "np_mean (map (\<lambda>t. fmul t (Fin k)) xs) = fmul (np_mean xs) (Fin k)"
  by (simp add: np_mean_def np_sum_scale [OF assms] fscale_div [OF assms])

lemma np_std_scale:
  assumes "0 < k"
  shows "np_std (map (\<lambda>t. fmul t (Fin k)) xs) = fmul (np_std xs) (Fin k)"
proof -
  let ?m = "np_mean xs"
  have kk: "0 < k * k" using assms by simp
  have "map (\<lambda>d. fmul d d) (map (\<lambda>a. fsub a (fmul ?m (Fin k))) (map (\<lambda>t. fmul t (Fin k)) xs)) =
      map (\<lambda>v. fmul v (Fin (k * k))) (map (\<lambda>d. fmul d d) (map (\<lambda>a. fsub a ?m) xs))"
    by (simp add: fscale_sub [OF assms, symmetric] fscale_square [OF assms])
  then have "np_std (map (\<lambda>t. fmul t (Fin k)) xs) =
      fsqrt (np_mean (map (\<lambda>v. fmul v (Fin (k * k))) (map (\<lambda>d. fmul d d) (map (\<lambda>a. fsub a ?m) xs))))"
    by (simp only: np_std_def Let_def np_mean_scale [OF assms])
  also have "\<dots> = fmul (np_std xs) (Fin k)"
    by (simp only: np_mean_scale [OF kk] fsqrt_scale [OF assms] np_std_def Let_def)
  finally show ?thesis .
qed

lemma coefficient_of_variation_scale_list:
  assumes "0 < k"
  shows "coefficient_of_variation (map (\<lambda>t. fmul t (Fin k)) nt) = coefficient_of_variation nt"
  by (simp only: coefficient_of_variation_def np_std_scale [OF assms] np_mean_scale [OF assms]
      fdiv_scale_both [OF assms])







end
